theory Spec2Isabelle
  imports Complex_Main "HOL-Library.Char_ord" "HOL-Library.List_Lexorder" "HOL-Library.Log_Nat"
begin

section \<open>Data model (src/src/database/db.ts)\<close>

text \<open>
  The rows of the two tables, as the TypeScript interfaces \<^verbatim>\<open>Profile\<close> and
  \<^verbatim>\<open>LogEntry\<close> declare them. TEXT columns are strings, ordered bytewise as
  SQLite's default BINARY collation orders them; INTEGER columns are integers; a
  nullable column is an option. The flag type is kept as the string the column stores
  (\<^verbatim>\<open>'GREEN'\<close>, \<^verbatim>\<open>'YELLOW'\<close>, \<^verbatim>\<open>'RED'\<close>): TypeScript's
  union type is erased at run time, and the CHECK constraint of the schema is what
  rejects other strings.
\<close>

record Profile =
  p_id :: int
  p_name :: string
  p_relationship :: string
  p_created_at :: string

record LogEntry =
  l_id :: int
  l_timestamp :: string
  l_person :: string
  l_profile_id :: "int option"
  l_type :: string
  l_severity :: int
  l_category :: string
  l_notes :: "string option"

section \<open>Scoring (calculateVibeScore, getHealthStatus)\<close>

text \<open>
  A JavaScript number is a binary64 float: every arithmetic operation returns the exact
  result rounded to the format. The rounding is the parameter \<open>fl\<close> of the model,
  applied where the source performs an operation; \<open>fl = (\<lambda>x. x)\<close> is exact
  arithmetic and \<open>fl = binary64\<close> the arithmetic of the source. Severities are the
  integers of the INTEGER column. \<^verbatim>\<open>Math.round\<close> is \<open>\<lfloor>x + 1/2\<rfloor>\<close>, which is
  \<^const>\<open>round\<close>; it, \<^verbatim>\<open>Math.min\<close> and \<^verbatim>\<open>Math.max\<close> are exact.
\<close>

text \<open>
  Rounding to binary64, to the nearest value with ties to the even significand: \<open>e\<close> is
  the exponent with \<^verbatim>\<open>2^e <= |x| < 2^(e+1)\<close>, found from the bit lengths of numerator
  and denominator, and the significand has 53 bits. Overflow and subnormal numbers are
  left out: the sums and quotients of a score are far from both.
\<close>

definition round_half_even :: "rat \<Rightarrow> int" where
  "round_half_even q =
     (let f = \<lfloor>q\<rfloor>; r = q - of_int f
      in if r < 1 / 2 then f else if r > 1 / 2 then f + 1 else if even f then f else f + 1)"

definition binary64 :: "rat \<Rightarrow> rat" where
  "binary64 x =
     (if x = 0 then 0
      else
        let (a, b) = quotient_of \<bar>x\<bar>;
            k = bitlen a - bitlen b;
            e = (if 2 powi k \<le> \<bar>x\<bar> then k else k - 1);
            ulp = 2 powi (e - 52)
        in sgn x * of_int (round_half_even (\<bar>x\<bar> / ulp)) * ulp)"

text \<open>
  The body of the \<^verbatim>\<open>for\<close> loop over the entries. The loop variable is
  \<open>entry\<close> here (\<open>log\<close> is the logarithm in HOL); the \<^verbatim>\<open>switch\<close> has
  no default case, so any other type string leaves the sum as it is.
\<close>

definition toxicityStep :: "(rat \<Rightarrow> rat) \<Rightarrow> rat \<Rightarrow> LogEntry \<Rightarrow> rat" where
  "toxicityStep fl toxicitySum entry =
     (if l_type entry = ''RED'' then fl (toxicitySum + of_int (l_severity entry))
      else if l_type entry = ''YELLOW'' then fl (toxicitySum + fl (of_int (l_severity entry) / 2))
      else if l_type entry = ''GREEN'' then fl (toxicitySum - of_int (l_severity entry))
      else toxicitySum)"

definition toxicityPercentage :: "(rat \<Rightarrow> rat) \<Rightarrow> LogEntry list \<Rightarrow> rat" where
  "toxicityPercentage fl logs =
     (let toxicitySum = foldl (toxicityStep fl) 0 logs;
          maxPossibleToxicity = fl (of_nat (length logs) * 10)
      in fl (fl (toxicitySum / maxPossibleToxicity) * 100))"

definition calculateVibeScore :: "(rat \<Rightarrow> rat) \<Rightarrow> LogEntry list \<Rightarrow> int" where
  "calculateVibeScore fl logs =
     (if length logs = 0 then 0
      else max 0 (min 100 (round (toxicityPercentage fl logs))))"

definition getHealthStatus :: "int \<Rightarrow> string" where
  "getHealthStatus score =
     (if score > 75 then ''Critical''
      else if score \<ge> 50 then ''Toxic''
      else if score \<ge> 25 then ''Concerning''
      else if score > 0 then ''Stable''
      else ''Thriving'')"

subsection \<open>The copies private to ProfileDetailScreen.tsx\<close>

definition ProfileDetailScreen_calculateVibeScore ::
    "(rat \<Rightarrow> rat) \<Rightarrow> LogEntry list \<Rightarrow> int" where
  "ProfileDetailScreen_calculateVibeScore fl logsList =
     (if length logsList = 0 then 0
      else
        let toxicitySum =
              foldl (\<lambda>toxicitySum entry.
                 if l_type entry = ''RED'' then fl (toxicitySum + of_int (l_severity entry))
                 else if l_type entry = ''YELLOW''
                   then fl (toxicitySum + fl (of_int (l_severity entry) / 2))
                 else if l_type entry = ''GREEN'' then fl (toxicitySum - of_int (l_severity entry))
                 else toxicitySum) 0 logsList;
            maxPossibleToxicity = fl (of_nat (length logsList) * 10);
            toxicityPercentage = fl (fl (toxicitySum / maxPossibleToxicity) * 100)
        in max 0 (min 100 (round toxicityPercentage)))"

definition ProfileDetailScreen_getHealthStatus :: "int \<Rightarrow> string" where
  "ProfileDetailScreen_getHealthStatus score =
     (if score > 75 then ''Critical''
      else if score \<ge> 50 then ''Toxic''
      else if score \<ge> 25 then ''Concerning''
      else if score > 0 then ''Stable''
      else ''Thriving'')"

subsection \<open>The score as the specification words it\<close>






section \<open>Persistence layer (src/src/database/db.ts)\<close>

subsection \<open>The stored state and the statements of the engine\<close>

text \<open>
  The database as the open handle of \<^verbatim>\<open>getDatabase\<close> sees it: the two tables in
  row order, and for each the counter that AUTOINCREMENT keeps in
  \<^verbatim>\<open>sqlite_sequence\<close> (the largest row id ever allocated). Every operation below
  runs on the open handle, that is after \<^verbatim>\<open>initializeDatabase\<close> has run.
\<close>

record database =
  db_profiles :: "Profile list"
  db_logs :: "LogEntry list"
  db_profiles_seq :: int
  db_logs_seq :: int

datatype db_error =
  UniqueConstraintViolation | CheckConstraintViolation | ForeignKeyViolation

text \<open>
  A statement returns the row id it inserted, or the constraint that rejected it,
  together with the state it leaves: a rejected statement is rolled back by the engine
  and leaves the state it found.
\<close>

type_synonym 'a db_result = "(db_error + 'a) \<times> database"

text \<open>
  SQLite enforces a \<^verbatim>\<open>REFERENCES\<close> clause, and runs its
  \<^verbatim>\<open>ON DELETE SET NULL\<close> action, only on a connection on which
  \<^verbatim>\<open>PRAGMA foreign_keys = ON\<close> has been executed; a connection opens with the
  setting off. \<^verbatim>\<open>getDatabase\<close> opens the connection with
  \<^verbatim>\<open>openDatabaseAsync\<close> and runs \<^verbatim>\<open>initializeDatabase\<close>, which executes
  CREATE TABLE, ALTER TABLE and the migration; neither it nor any other file of the
  repository executes a PRAGMA. The statements below take the setting as their first
  argument; the operations of the source pass \<open>foreign_keys\<close>.
\<close>

definition foreign_keys :: bool where
  "foreign_keys = False"

text \<open>AUTOINCREMENT: one more than the largest row id that ever existed in the table.\<close>

definition next_rowid :: "int \<Rightarrow> int list \<Rightarrow> int" where
  "next_rowid seq ids = max seq (fold max ids 0) + 1"

text \<open>
  \<^verbatim>\<open>INSERT INTO profiles (name, relationship, created_at) VALUES (?, ?, ?)\<close>
  with \<^verbatim>\<open>name TEXT NOT NULL UNIQUE\<close>.
\<close>

definition sql_insert_profile :: "string \<Rightarrow> string \<Rightarrow> string \<Rightarrow> database \<Rightarrow> int db_result" where
  "sql_insert_profile name relationship created_at d =
     (if list_ex (\<lambda>p. p_name p = name) (db_profiles d) then (Inl UniqueConstraintViolation, d)
      else
        let rowid = next_rowid (db_profiles_seq d) (map p_id (db_profiles d))
        in (Inr rowid,
            d\<lparr>db_profiles := db_profiles d @
                 [\<lparr>p_id = rowid, p_name = name, p_relationship = relationship,
                   p_created_at = created_at\<rparr>],
              db_profiles_seq := rowid\<rparr>))"

text \<open>
  \<^verbatim>\<open>INSERT INTO logs (timestamp, person, profile_id, type, severity, category, notes)\<close>
  with the two CHECK constraints of the table and the REFERENCES clause of
  \<^verbatim>\<open>profile_id\<close>.
\<close>

definition sql_insert_log ::
    "bool \<Rightarrow> string \<Rightarrow> string \<Rightarrow> int option \<Rightarrow> string \<Rightarrow> int \<Rightarrow> string \<Rightarrow> string option
      \<Rightarrow> database \<Rightarrow> int db_result" where
  "sql_insert_log fk timestamp person profile_id type severity category notes d =
     (if \<not> (type = ''GREEN'' \<or> type = ''YELLOW'' \<or> type = ''RED'')
        then (Inl CheckConstraintViolation, d)
      else if \<not> (severity \<ge> 1 \<and> severity \<le> 10) then (Inl CheckConstraintViolation, d)
      else if fk \<and> (case profile_id of None \<Rightarrow> False
                     | Some i \<Rightarrow> \<not> list_ex (\<lambda>p. p_id p = i) (db_profiles d))
        then (Inl ForeignKeyViolation, d)
      else
        let rowid = next_rowid (db_logs_seq d) (map l_id (db_logs d))
        in (Inr rowid,
            d\<lparr>db_logs := db_logs d @
                 [\<lparr>l_id = rowid, l_timestamp = timestamp, l_person = person,
                   l_profile_id = profile_id, l_type = type, l_severity = severity,
                   l_category = category, l_notes = notes\<rparr>],
              db_logs_seq := rowid\<rparr>))"

text \<open>
  \<^verbatim>\<open>DELETE FROM profiles WHERE id = ?\<close>. When foreign keys are enforced and a
  row is deleted, \<^verbatim>\<open>ON DELETE SET NULL\<close> clears the reference of every log row
  that points at it.
\<close>

definition sql_delete_profile :: "bool \<Rightarrow> int \<Rightarrow> database \<Rightarrow> database" where
  "sql_delete_profile fk i d =
     d\<lparr>db_profiles := filter (\<lambda>p. p_id p \<noteq> i) (db_profiles d),
       db_logs := (if fk \<and> list_ex (\<lambda>p. p_id p = i) (db_profiles d)
                then map (\<lambda>l. if l_profile_id l = Some i then l\<lparr>l_profile_id := None\<rparr> else l)
                       (db_logs d)
                else db_logs d)\<rparr>"

text \<open>
  \<^verbatim>\<open>UPDATE logs SET profile_id = ? WHERE person = ? AND profile_id IS NULL\<close>.
  The migration only writes the id of a profile row that exists, which enforcement of
  the reference would accept as well.
\<close>

definition sql_link_logs :: "int \<Rightarrow> string \<Rightarrow> database \<Rightarrow> database" where
  "sql_link_logs profileId person d =
     d\<lparr>db_logs := map (\<lambda>l. if l_person l = person \<and> l_profile_id l = None
                          then l\<lparr>l_profile_id := Some profileId\<rparr> else l) (db_logs d)\<rparr>"

text \<open>
  \<^verbatim>\<open>ORDER BY timestamp DESC\<close>: the timestamps are ISO-8601 strings, compared as
  strings. SQL leaves the order of rows with equal keys open; the engine returns them in
  the order of the table, and so does the model (\<^const>\<open>sort_key\<close> is stable, and
  the two reversals turn its ascending order into a descending one that keeps ties as
  they were).
\<close>

definition order_by_timestamp_desc :: "LogEntry list \<Rightarrow> LogEntry list" where
  "order_by_timestamp_desc rows = rev (sort_key l_timestamp (rev rows))"

text \<open>
  \<^verbatim>\<open>SELECT DISTINCT\<close>: every value once. SQL leaves the order open; the engine
  returns the values in the order of their first occurrence in the table, and so does
  the model (\<^const>\<open>remdups\<close> keeps the last occurrence, hence the two reversals).
\<close>

definition sql_distinct :: "'a list \<Rightarrow> 'a list" where
  "sql_distinct rows = rev (remdups (rev rows))"


subsection \<open>migrateExistingData\<close>

text \<open>
  The loop over \<^verbatim>\<open>uniquePeople\<close>. \<open>clock person\<close> is the time read by
  \<^verbatim>\<open>new Date().toISOString()\<close> when the profile of that person is created. An
  exception of the INSERT leaves the loop and the function, with the statements
  executed so far applied (there is no transaction).
\<close>

fun migrate_people :: "(string \<Rightarrow> string) \<Rightarrow> string list \<Rightarrow> database \<Rightarrow> unit db_result" where
  "migrate_people clock [] d = (Inr (), d)"
| "migrate_people clock (person # rest) d =
     (case (case filter (\<lambda>p. p_name p = person) (db_profiles d) of
              existing0 # _ \<Rightarrow> (Inr (p_id existing0), d)
            | [] \<Rightarrow> sql_insert_profile person ''Unknown'' (clock person) d) of
        (Inl err, d1) \<Rightarrow> (Inl err, d1)
      | (Inr profileId, d1) \<Rightarrow> migrate_people clock rest (sql_link_logs profileId person d1))"

definition migrateExistingData :: "(string \<Rightarrow> string) \<Rightarrow> database \<Rightarrow> unit db_result" where
  "migrateExistingData clock d =
     (let existingLogs =
            take 1 (sql_distinct (map (\<lambda>l. (l_person l, l_profile_id l))
                               (filter (\<lambda>l. l_profile_id l = None) (db_logs d))))
      in if length existingLogs = 0 then (Inr (), d)
         else
           let uniquePeople =
                 sql_distinct (map l_person (filter (\<lambda>l. l_profile_id l = None) (db_logs d)))
           in migrate_people clock uniquePeople d)"

subsection \<open>Profile and log operations\<close>

record NewProfile =
  np_name :: string
  np_relationship :: string

record NewLogEntry =
  n_person :: string
  n_profile_id :: "int option"
  n_type :: string
  n_severity :: int
  n_category :: string
  n_notes :: "string option"

text \<open>
  \<^verbatim>\<open>x || null\<close>: an absent (undefined) value and a falsy one, the number 0 or the
  empty string, become NULL.
\<close>

definition number_or_null :: "int option \<Rightarrow> int option" where
  "number_or_null x = (case x of None \<Rightarrow> None | Some n \<Rightarrow> if n = 0 then None else Some n)"

definition string_or_null :: "string option \<Rightarrow> string option" where
  "string_or_null x = (case x of None \<Rightarrow> None | Some s \<Rightarrow> if s = [] then None else Some s)"

text \<open>\<open>timestamp\<close> is the time read by \<^verbatim>\<open>new Date().toISOString()\<close>.\<close>

definition createProfile :: "NewProfile \<Rightarrow> string \<Rightarrow> database \<Rightarrow> int db_result" where
  "createProfile profile timestamp d =
     sql_insert_profile (np_name profile) (np_relationship profile) timestamp d"

definition deleteProfile :: "int \<Rightarrow> database \<Rightarrow> database" where
  "deleteProfile i d = sql_delete_profile foreign_keys i d"

definition insertLog :: "NewLogEntry \<Rightarrow> string \<Rightarrow> database \<Rightarrow> int db_result" where
  "insertLog entry timestamp d =
     sql_insert_log foreign_keys timestamp (n_person entry) (number_or_null (n_profile_id entry))
       (n_type entry) (n_severity entry) (n_category entry) (string_or_null (n_notes entry)) d"

definition getLogsByProfileId :: "int \<Rightarrow> database \<Rightarrow> LogEntry list" where
  "getLogsByProfileId profileId d =
     order_by_timestamp_desc (filter (\<lambda>l. l_profile_id l = Some profileId) (db_logs d))"

text \<open>
  \<^verbatim>\<open>fetchProfileData\<close> of ProfileDetailScreen.tsx: the profile and the logs it hands
  to \<^verbatim>\<open>setProfile\<close> and \<^verbatim>\<open>setLogs\<close>.
\<close>

definition fetchProfileData :: "int \<Rightarrow> database \<Rightarrow> Profile option \<times> LogEntry list" where
  "fetchProfileData profileId d =
     (case filter (\<lambda>p. p_id p = profileId) (db_profiles d) of
        [] \<Rightarrow> (None, [])
      | loadedProfile # _ \<Rightarrow>
          let logResults =
                order_by_timestamp_desc (filter (\<lambda>l. l_profile_id l = Some profileId) (db_logs d))
          in if length logResults = 0
             then (Some loadedProfile,
                   order_by_timestamp_desc
                     (filter (\<lambda>l. l_person l = p_name loadedProfile) (db_logs d)))
             else (Some loadedProfile, logResults))"

subsection \<open>getTopProfilesByLogCount\<close>






section \<open>Example data\<close>

definition example_entry :: "string \<Rightarrow> int \<Rightarrow> LogEntry" where
  "example_entry type severity =
     \<lparr>l_id = 1, l_timestamp = ''2024-01-01T00:00:00.000Z'', l_person = ''Alex'',
      l_profile_id = Some 1, l_type = type, l_severity = severity,
      l_category = ''Trust'', l_notes = None\<rparr>"

definition empty_database :: database where
  "empty_database = \<lparr>db_profiles = [], db_logs = [], db_profiles_seq = 0, db_logs_seq = 0\<rparr>"

definition alex :: NewProfile where
  "alex = \<lparr>np_name = ''Alex'', np_relationship = ''Friend''\<rparr>"

text \<open>The database after \<^verbatim>\<open>createProfile({name: "Alex", relationship: "Friend"})\<close>.\<close>

definition alex_database :: database where
  "alex_database =
     \<lparr>db_profiles = [\<lparr>p_id = 1, p_name = ''Alex'', p_relationship = ''Friend'',
                       p_created_at = ''2024-01-01T10:00:00.000Z''\<rparr>],
      db_logs = [], db_profiles_seq = 1, db_logs_seq = 0\<rparr>"

definition red_flag :: "int option \<Rightarrow> NewLogEntry" where
  "red_flag profile_id =
     \<lparr>n_person = ''Alex'', n_profile_id = profile_id, n_type = ''RED'', n_severity = 5,
      n_category = ''Trust'', n_notes = None\<rparr>"

text \<open>The same database after a red flag has been filed, with and without the profile reference.\<close>

definition alex_flagged_database :: database where
  "alex_flagged_database =
     alex_database\<lparr>db_logs :=
        [\<lparr>l_id = 1, l_timestamp = ''2024-01-03T10:00:00.000Z'', l_person = ''Alex'',
          l_profile_id = Some 1, l_type = ''RED'', l_severity = 5, l_category = ''Trust'',
          l_notes = None\<rparr>], db_logs_seq := 1\<rparr>"

definition alex_unlinked_database :: database where
  "alex_unlinked_database =
     alex_database\<lparr>db_logs :=
        [\<lparr>l_id = 1, l_timestamp = ''2024-01-03T10:00:00.000Z'', l_person = ''Alex'',
          l_profile_id = None, l_type = ''RED'', l_severity = 5, l_category = ''Trust'',
          l_notes = None\<rparr>], db_logs_seq := 1\<rparr>"


definition example_profile :: "int \<Rightarrow> string \<Rightarrow> Profile" where
  "example_profile i name =
     \<lparr>p_id = i, p_name = name, p_relationship = ''Friend'',
      p_created_at = ''2024-01-01T00:00:00.000Z''\<rparr>"

definition example_log :: "int \<Rightarrow> int option \<Rightarrow> string \<Rightarrow> LogEntry" where
  "example_log i profile_id person =
     \<lparr>l_id = i, l_timestamp = ''2024-02-01T00:00:00.000Z'', l_person = person,
      l_profile_id = profile_id, l_type = ''RED'', l_severity = 5,
      l_category = ''Trust'', l_notes = None\<rparr>"


text \<open>
  A database written before profiles existed: three logs without a profile reference,
  one linked log, and a profile for one of the two names.
\<close>

definition legacy_database :: database where
  "legacy_database =
     \<lparr>db_profiles = [example_profile 1 ''Sam''],
      db_logs =
        [example_log 1 None ''Alex'', example_log 2 None ''Sam'',
         example_log 3 None ''Alex'', example_log 4 (Some 1) ''Sam''],
      db_profiles_seq = 1, db_logs_seq = 4\<rparr>"

text \<open>The same database after the migration has run at \<^verbatim>\<open>2024-03-01\<close>.\<close>

definition migrated_legacy_database :: database where
  "migrated_legacy_database =
     \<lparr>db_profiles =
        [example_profile 1 ''Sam'',
         \<lparr>p_id = 2, p_name = ''Alex'', p_relationship = ''Unknown'',
          p_created_at = ''2024-03-01T00:00:00.000Z''\<rparr>],
      db_logs =
        [example_log 1 (Some 2) ''Alex'', example_log 2 (Some 1) ''Sam'',
         example_log 3 (Some 2) ''Alex'', example_log 4 (Some 1) ''Sam''],
      db_profiles_seq = 2, db_logs_seq = 4\<rparr>"

subsection \<open>Auxiliary notions of the statements\<close>

text \<open>The names of the log rows that have no profile reference.\<close>

definition unlinked_people :: "database \<Rightarrow> string set" where
  "unlinked_people d = l_person ` {l \<in> set (db_logs d). l_profile_id l = None}"

text \<open>
  What the migration may do to a log row, given the profiles: give a row without a
  profile reference the id of a profile that bears the row's name, and nothing else.
\<close>

definition linked_to :: "Profile list \<Rightarrow> LogEntry \<Rightarrow> LogEntry \<Rightarrow> bool" where
  "linked_to ps l l' \<longleftrightarrow>
     (if l_profile_id l = None
      then l' = l \<or> (\<exists>p \<in> set ps. p_name p = l_person l \<and> l' = l\<lparr>l_profile_id := Some (p_id p)\<rparr>)
      else l' = l)"





section \<open>Properties of the scoring functions\<close>






text \<open>
  Under the rounding of binary64 the tie of a red flag of severity 10 and a yellow one of
  severity 3 is lost: 11.5 / 20 is rounded below 0.575, the product with 100 below 57.5,
  and the score is 57, where exact arithmetic gives 57.5 and the score 58.
\<close>

lemma calculateVibeScore_binary64_tie:
  "calculateVibeScore binary64 [example_entry ''RED'' 10, example_entry ''YELLOW'' 3] = 57
   \<and> calculateVibeScore (\<lambda>x. x) [example_entry ''RED'' 10, example_entry ''YELLOW'' 3] = 58"
  by code_simp

text \<open>
  C2. For an integer score in [0,100], getHealthStatus returns "Critical" exactly when
  score > 75, "Toxic" exactly when 50 <= score <= 75, "Concerning" exactly when
  25 <= score < 50, "Stable" exactly when 0 < score < 25 and "Thriving" exactly when
  score = 0; at the boundaries, 75 is "Toxic", 76 "Critical", 0 "Thriving", 1 "Stable".
\<close>

theorem getHealthStatus_thresholds:
  assumes "0 \<le> score" and "score \<le> 100"
  shows "(getHealthStatus score = ''Critical'' \<longleftrightarrow> score > 75)
       \<and> (getHealthStatus score = ''Toxic'' \<longleftrightarrow> 50 \<le> score \<and> score \<le> 75)
       \<and> (getHealthStatus score = ''Concerning'' \<longleftrightarrow> 25 \<le> score \<and> score < 50)
       \<and> (getHealthStatus score = ''Stable'' \<longleftrightarrow> 0 < score \<and> score < 25)
       \<and> (getHealthStatus score = ''Thriving'' \<longleftrightarrow> score = 0)
       \<and> getHealthStatus 75 = ''Toxic'' \<and> getHealthStatus 76 = ''Critical''
       \<and> getHealthStatus 0 = ''Thriving'' \<and> getHealthStatus 1 = ''Stable''"
  using assms by (auto simp: getHealthStatus_def)

theorem getHealthStatus_thresholds_witness:
  "getHealthStatus 75 = ''Toxic'' \<and> getHealthStatus 76 = ''Critical''
   \<and> getHealthStatus 50 = ''Toxic'' \<and> getHealthStatus 49 = ''Concerning''
   \<and> getHealthStatus 25 = ''Concerning'' \<and> getHealthStatus 24 = ''Stable''
   \<and> getHealthStatus 1 = ''Stable'' \<and> getHealthStatus 0 = ''Thriving''
   \<and> getHealthStatus 100 = ''Critical''"
  using getHealthStatus_thresholds [of 75] getHealthStatus_thresholds [of 50]
    getHealthStatus_thresholds [of 49] getHealthStatus_thresholds [of 25]
    getHealthStatus_thresholds [of 24] getHealthStatus_thresholds [of 100]
  by simp

text \<open>
  C9. For every sequence of log entries, whatever their severities and types,
  calculateVibeScore returns an integer in [0,100]: a negative percentage gives 0 and a
  percentage above 100 gives 100.
\<close>

theorem calculateVibeScore_range:
  "0 \<le> calculateVibeScore fl logs \<and> calculateVibeScore fl logs \<le> 100
   \<and> (logs \<noteq> [] \<and> toxicityPercentage fl logs < 0 \<longrightarrow> calculateVibeScore fl logs = 0)
   \<and> (logs \<noteq> [] \<and> toxicityPercentage fl logs > 100 \<longrightarrow> calculateVibeScore fl logs = 100)"
proof -
  have neg: "round x \<le> 0" if "x < 0" for x :: rat
    using round_mono [of x 0] that by simp
  have big: "100 \<le> round x" if "100 < x" for x :: rat
    using round_mono [of 100 x] that by simp
  show ?thesis
    using neg [of "toxicityPercentage fl logs"] big [of "toxicityPercentage fl logs"]
    by (auto simp: calculateVibeScore_def)
qed

theorem calculateVibeScore_range_witness:
  "toxicityPercentage (\<lambda>x. x) [example_entry ''GREEN'' 7, example_entry ''GREEN'' 10] < 0
   \<and> calculateVibeScore (\<lambda>x. x) [example_entry ''GREEN'' 7, example_entry ''GREEN'' 10] = 0
   \<and> toxicityPercentage (\<lambda>x. x) [example_entry ''RED'' 25] > 100
   \<and> calculateVibeScore (\<lambda>x. x) [example_entry ''RED'' 25] = 100"
proof -
  have a: "toxicityPercentage (\<lambda>x. x) [example_entry ''GREEN'' 7, example_entry ''GREEN'' 10] < 0"
    by (simp add: toxicityPercentage_def toxicityStep_def example_entry_def)
  have b: "toxicityPercentage (\<lambda>x. x) [example_entry ''RED'' 25] > 100"
    by (simp add: toxicityPercentage_def toxicityStep_def example_entry_def)
  show ?thesis
    using a b
      calculateVibeScore_range [of "\<lambda>x. x" "[example_entry ''GREEN'' 7, example_entry ''GREEN'' 10]"]
      calculateVibeScore_range [of "\<lambda>x. x" "[example_entry ''RED'' 25]"]
    by simp
qed

text \<open>
  C10. The scoring functions private to ProfileDetailScreen return what the exported
  calculateVibeScore and getHealthStatus of the database module return, for every list
  of log entries and every integer score.
\<close>

theorem ProfileDetailScreen_scoring_eq:
  "ProfileDetailScreen_calculateVibeScore fl logs = calculateVibeScore fl logs
   \<and> ProfileDetailScreen_getHealthStatus score = getHealthStatus score"
proof
  have "foldl (\<lambda>toxicitySum entry.
                 if l_type entry = ''RED'' then fl (toxicitySum + of_int (l_severity entry))
                 else if l_type entry = ''YELLOW''
                   then fl (toxicitySum + fl (of_int (l_severity entry) / 2))
                 else if l_type entry = ''GREEN'' then fl (toxicitySum - of_int (l_severity entry))
                 else toxicitySum) 0 logs = foldl (toxicityStep fl) 0 logs"
    by (rule arg_cong [where f = "\<lambda>f. foldl f 0 logs"]) (simp add: fun_eq_iff toxicityStep_def)
  then show "ProfileDetailScreen_calculateVibeScore fl logs = calculateVibeScore fl logs"
    by (simp add: ProfileDetailScreen_calculateVibeScore_def calculateVibeScore_def
        toxicityPercentage_def Let_def)
next
  show "ProfileDetailScreen_getHealthStatus score = getHealthStatus score"
    by (simp add: ProfileDetailScreen_getHealthStatus_def getHealthStatus_def)
qed

section \<open>Properties of the persistence layer\<close>

subsection \<open>Row ids\<close>

lemma fold_max_ge: "a \<le> fold max xs (a::int)"
  by (induction xs arbitrary: a) (auto intro: order_trans [OF max.cobounded2])

lemma fold_max_mem: "x \<in> set xs \<Longrightarrow> x \<le> fold max xs (a::int)"
proof (induction xs arbitrary: a)
  case Nil
  then show ?case by simp
next
  case (Cons y ys)
  show ?case
  proof (cases "x = y")
    case True
    have "x \<le> max y a" using True by simp
    also have "\<dots> \<le> fold max ys (max y a)" by (rule fold_max_ge)
    finally show ?thesis by simp
  next
    case False
    with Cons show ?thesis by simp
  qed
qed

lemma next_rowid_fresh: "next_rowid seq ids \<notin> set ids"
proof
  assume "next_rowid seq ids \<in> set ids"
  then have "next_rowid seq ids \<le> fold max ids 0" by (rule fold_max_mem)
  then show False by (simp add: next_rowid_def)
qed

lemma next_rowid_gt_seq: "seq < next_rowid seq ids"
  by (simp add: next_rowid_def)

lemma sql_insert_profile_new:
  assumes "\<not> list_ex (\<lambda>p. p_name p = name) (db_profiles d)"
  shows "sql_insert_profile name relationship created_at d =
    (Inr (next_rowid (db_profiles_seq d) (map p_id (db_profiles d))),
     d\<lparr>db_profiles := db_profiles d @
          [\<lparr>p_id = next_rowid (db_profiles_seq d) (map p_id (db_profiles d)), p_name = name,
            p_relationship = relationship, p_created_at = created_at\<rparr>],
       db_profiles_seq := next_rowid (db_profiles_seq d) (map p_id (db_profiles d))\<rparr>)"
  using assms by (simp add: sql_insert_profile_def Let_def)

subsection \<open>migrateExistingData\<close>

lemma unlinked_after_link:
  "map l_person (filter (\<lambda>l. l_profile_id l = None)
      (map (\<lambda>l. if l_person l = person \<and> l_profile_id l = None
                 then l\<lparr>l_profile_id := Some profileId\<rparr> else l) rows)) =
   filter (\<lambda>n. n \<noteq> person) (map l_person (filter (\<lambda>l. l_profile_id l = None) rows))"
  by (induction rows) simp_all

lemma unlinked_people_link:
  "unlinked_people (sql_link_logs profileId person d) = unlinked_people d - {person}"
proof -
  have rows: "db_logs (sql_link_logs profileId person d) =
      map (\<lambda>l. if l_person l = person \<and> l_profile_id l = None
                 then l\<lparr>l_profile_id := Some profileId\<rparr> else l) (db_logs d)"
    by (simp add: sql_link_logs_def)
  have "unlinked_people (sql_link_logs profileId person d) =
      set (map l_person (filter (\<lambda>l. l_profile_id l = None) (db_logs (sql_link_logs profileId person d))))"
    by (simp add: unlinked_people_def)
  also have "\<dots> = set (filter (\<lambda>n. n \<noteq> person)
      (map l_person (filter (\<lambda>l. l_profile_id l = None) (db_logs d))))"
    by (simp only: rows unlinked_after_link)
  also have "\<dots> = unlinked_people d - {person}"
    by (simp add: unlinked_people_def) blast
  finally show ?thesis .
qed

lemma migrate_people_result:
  "\<exists>d'. migrate_people clock people d = (Inr (), d')
        \<and> unlinked_people d' = unlinked_people d - set people"
proof (induction people arbitrary: d)
  case Nil
  show ?case by simp
next
  case (Cons person rest)
  show ?case
  proof (cases "filter (\<lambda>p. p_name p = person) (db_profiles d)")
    case Nil
    then have fresh: "\<not> list_ex (\<lambda>p. p_name p = person) (db_profiles d)"
      by (simp add: list_ex_iff filter_empty_conv)
    define rowid where "rowid = next_rowid (db_profiles_seq d) (map p_id (db_profiles d))"
    define d1 where "d1 = d\<lparr>db_profiles := db_profiles d @
          [\<lparr>p_id = rowid, p_name = person, p_relationship = ''Unknown'',
            p_created_at = clock person\<rparr>], db_profiles_seq := rowid\<rparr>"
    have ins: "sql_insert_profile person ''Unknown'' (clock person) d = (Inr rowid, d1)"
      unfolding rowid_def d1_def by (rule sql_insert_profile_new [OF fresh])
    have step: "migrate_people clock (person # rest) d =
        migrate_people clock rest (sql_link_logs rowid person d1)"
      by (simp add: Nil ins)
    have "db_logs d1 = db_logs d" by (simp add: d1_def)
    then have same: "unlinked_people d1 = unlinked_people d" by (simp add: unlinked_people_def)
    obtain d' where run: "migrate_people clock rest (sql_link_logs rowid person d1) = (Inr (), d')"
      and un: "unlinked_people d' = unlinked_people (sql_link_logs rowid person d1) - set rest"
      using Cons.IH by blast
    have "unlinked_people d' = unlinked_people d - set (person # rest)"
      unfolding un unlinked_people_link same by auto
    with run step show ?thesis by simp
  next
    case (Cons existing0 others)
    have step: "migrate_people clock (person # rest) d =
        migrate_people clock rest (sql_link_logs (p_id existing0) person d)"
      by (simp add: Cons)
    obtain d' where run: "migrate_people clock rest (sql_link_logs (p_id existing0) person d) = (Inr (), d')"
      and un: "unlinked_people d' = unlinked_people (sql_link_logs (p_id existing0) person d) - set rest"
      using Cons.IH by blast
    have "unlinked_people d' = unlinked_people d - set (person # rest)"
      unfolding un unlinked_people_link by auto
    with run step show ?thesis by simp
  qed
qed

lemma unlinked_people_empty:
  "unlinked_people d = {} \<longleftrightarrow> filter (\<lambda>l. l_profile_id l = None) (db_logs d) = []"
  by (auto simp: unlinked_people_def filter_empty_conv)

lemma migrate_noop:
  assumes "filter (\<lambda>l. l_profile_id l = None) (db_logs d) = []"
  shows "migrateExistingData clock d = (Inr (), d)"
  using assms by (simp add: migrateExistingData_def sql_distinct_def)

lemma migrate_legacy:
  "migrateExistingData (\<lambda>person. ''2024-03-01T00:00:00.000Z'') legacy_database =
     (Inr (), migrated_legacy_database)"
  by (simp add: migrateExistingData_def sql_distinct_def legacy_database_def
      migrated_legacy_database_def example_log_def example_profile_def sql_insert_profile_def
      sql_link_logs_def next_rowid_def)

text \<open>
  C3. The migration is idempotent: from every database state it succeeds, leaves no log
  row without a profile reference, and a second run, at whatever time, finds nothing to
  do and returns the state of the first run unchanged, so it creates no profile and
  touches no row.
\<close>

theorem migrateExistingData_idempotent:
  "\<exists>d'. migrateExistingData clock d = (Inr (), d')
        \<and> filter (\<lambda>l. l_profile_id l = None) (db_logs d') = []
        \<and> migrateExistingData clock' d' = (Inr (), d')"
proof (cases "filter (\<lambda>l. l_profile_id l = None) (db_logs d) = []")
  case True
  then show ?thesis by (simp add: migrate_noop)
next
  case False
  let ?people = "sql_distinct (map l_person (filter (\<lambda>l. l_profile_id l = None) (db_logs d)))"
  have run: "migrateExistingData clock d = migrate_people clock ?people d"
    using False by (simp add: migrateExistingData_def sql_distinct_def)
  obtain d' where d': "migrate_people clock ?people d = (Inr (), d')"
    and un: "unlinked_people d' = unlinked_people d - set ?people"
    using migrate_people_result by blast
  have "set ?people = unlinked_people d"
    by (auto simp: unlinked_people_def sql_distinct_def)
  with un have "unlinked_people d' = {}" by simp
  then have none: "filter (\<lambda>l. l_profile_id l = None) (db_logs d') = []"
    by (simp add: unlinked_people_empty)
  show ?thesis
    using run d' none migrate_noop [OF none] by simp
qed

theorem migrateExistingData_idempotent_witness:
  "(\<exists>d'. migrateExistingData (\<lambda>person. ''2024-03-01T00:00:00.000Z'') legacy_database = (Inr (), d')
      \<and> map l_profile_id (db_logs d') = [Some 2, Some 1, Some 2, Some 1]
      \<and> map p_name (db_profiles d') = [''Sam'', ''Alex'']
      \<and> migrateExistingData (\<lambda>person. ''2024-04-01T00:00:00.000Z'') d' = (Inr (), d'))"
proof -
  obtain d' where d': "migrateExistingData (\<lambda>person. ''2024-03-01T00:00:00.000Z'') legacy_database = (Inr (), d')"
    and again: "migrateExistingData (\<lambda>person. ''2024-04-01T00:00:00.000Z'') d' = (Inr (), d')"
    using migrateExistingData_idempotent
      [of "\<lambda>person. ''2024-03-01T00:00:00.000Z''" legacy_database "\<lambda>person. ''2024-04-01T00:00:00.000Z''"]
    by blast
  from d' have eq: "d' = migrated_legacy_database"
    by (simp only: migrate_legacy prod.inject)
  have "map l_profile_id (db_logs d') = [Some 2, Some 1, Some 2, Some 1]"
    unfolding eq by (simp add: migrated_legacy_database_def example_log_def)
  moreover have "map p_name (db_profiles d') = [''Sam'', ''Alex'']"
    unfolding eq by (simp add: migrated_legacy_database_def example_profile_def)
  ultimately have "migrateExistingData (\<lambda>person. ''2024-03-01T00:00:00.000Z'') legacy_database = (Inr (), d')
      \<and> map l_profile_id (db_logs d') = [Some 2, Some 1, Some 2, Some 1]
      \<and> map p_name (db_profiles d') = [''Sam'', ''Alex'']
      \<and> migrateExistingData (\<lambda>person. ''2024-04-01T00:00:00.000Z'') d' = (Inr (), d')"
    using d' again by (intro conjI)
  then show ?thesis by (rule exI)
qed

lemma linked_to_refl: "linked_to ps l l"
  by (simp add: linked_to_def)

lemma linked_to_trans:
  assumes "linked_to ps l l1" and "linked_to ps' l1 l'" and "set ps \<subseteq> set ps'"
  shows "linked_to ps' l l'"
proof (cases "l_profile_id l = None")
  case False
  with assms(1) have "l1 = l" by (simp add: linked_to_def)
  with assms(2) show ?thesis by simp
next
  case True
  with assms(1) consider "l1 = l"
    | p where "p \<in> set ps" "p_name p = l_person l" "l1 = l\<lparr>l_profile_id := Some (p_id p)\<rparr>"
    by (auto simp: linked_to_def)
  then show ?thesis
  proof cases
    case 1
    with assms(2) show ?thesis by simp
  next
    case 2
    then have "l_profile_id l1 \<noteq> None" by simp
    with assms(2) have "l' = l1" by (simp add: linked_to_def)
    with 2 assms(3) True show ?thesis by (auto simp: linked_to_def)
  qed
qed

lemma sql_link_logs_linked:
  assumes "p \<in> set (db_profiles d)" and "p_name p = person"
  shows "list_all2 (linked_to (db_profiles d)) (db_logs d)
           (db_logs (sql_link_logs (p_id p) person d))"
proof -
  have "list_all2 (linked_to (db_profiles d)) rows
      (map (\<lambda>l. if l_person l = person \<and> l_profile_id l = None
                 then l\<lparr>l_profile_id := Some (p_id p)\<rparr> else l) rows)" for rows
    using assms by (induction rows) (auto simp: linked_to_def)
  then show ?thesis by (simp add: sql_link_logs_def)
qed

lemma migrate_people_links:
  "\<exists>d' new. migrate_people clock people d = (Inr (), d')
     \<and> db_profiles d' = db_profiles d @ new
     \<and> (\<forall>p \<in> set new. p_relationship p = ''Unknown'' \<and> p_name p \<in> set people)
     \<and> (distinct (map p_name (db_profiles d)) \<longrightarrow> distinct (map p_name (db_profiles d')))
     \<and> list_all2 (linked_to (db_profiles d')) (db_logs d) (db_logs d')"
proof (induction people arbitrary: d)
  case Nil
  show ?case by (simp add: list_all2_refl linked_to_refl)
next
  case (Cons person rest)
  note IH = Cons.IH
  show ?case
  proof (cases "filter (\<lambda>p. p_name p = person) (db_profiles d)")
    case Nil
    then have fresh: "\<not> list_ex (\<lambda>p. p_name p = person) (db_profiles d)"
      by (simp add: list_ex_iff filter_empty_conv)
    then have unused: "person \<notin> set (map p_name (db_profiles d))"
      by (auto simp: list_ex_iff)
    define rowid where "rowid = next_rowid (db_profiles_seq d) (map p_id (db_profiles d))"
    define row where "row = \<lparr>p_id = rowid, p_name = person, p_relationship = ''Unknown'',
            p_created_at = clock person\<rparr>"
    define d1 where "d1 = d\<lparr>db_profiles := db_profiles d @ [row], db_profiles_seq := rowid\<rparr>"
    have ins: "sql_insert_profile person ''Unknown'' (clock person) d = (Inr rowid, d1)"
      unfolding rowid_def d1_def row_def by (rule sql_insert_profile_new [OF fresh])
    have step: "migrate_people clock (person # rest) d =
        migrate_people clock rest (sql_link_logs rowid person d1)"
      by (simp add: Nil ins)
    let ?d2 = "sql_link_logs rowid person d1"
    have profiles2: "db_profiles ?d2 = db_profiles d @ [row]"
      by (simp add: sql_link_logs_def d1_def)
    have "row \<in> set (db_profiles d1)" "p_name row = person" "p_id row = rowid"
      by (simp_all add: d1_def row_def)
    then have "list_all2 (linked_to (db_profiles d1)) (db_logs d1) (db_logs ?d2)"
      using sql_link_logs_linked [of row d1 person] by simp
    then have link2: "list_all2 (linked_to (db_profiles ?d2)) (db_logs d) (db_logs ?d2)"
      by (simp add: d1_def sql_link_logs_def)
    obtain d' new where run: "migrate_people clock rest ?d2 = (Inr (), d')"
      and profiles': "db_profiles d' = db_profiles ?d2 @ new"
      and new: "\<forall>p \<in> set new. p_relationship p = ''Unknown'' \<and> p_name p \<in> set rest"
      and dist: "distinct (map p_name (db_profiles ?d2)) \<longrightarrow> distinct (map p_name (db_profiles d'))"
      and link': "list_all2 (linked_to (db_profiles d')) (db_logs ?d2) (db_logs d')"
      using IH by blast
    have sub: "set (db_profiles ?d2) \<subseteq> set (db_profiles d')"
      by (simp add: profiles')
    have "list_all2 (linked_to (db_profiles d')) (db_logs d) (db_logs d')"
      using link2 link' by (rule list_all2_trans [rotated]) (rule linked_to_trans [OF _ _ sub])
    moreover have "db_profiles d' = db_profiles d @ (row # new)"
      by (simp add: profiles' profiles2)
    moreover have "\<forall>p \<in> set (row # new). p_relationship p = ''Unknown'' \<and> p_name p \<in> set (person # rest)"
      using new by (simp add: row_def)
    moreover have "distinct (map p_name (db_profiles d)) \<longrightarrow> distinct (map p_name (db_profiles d'))"
      using dist unused by (simp add: profiles2 row_def)
    ultimately show ?thesis using run step by metis
  next
    case (Cons existing0 others)
    have step: "migrate_people clock (person # rest) d =
        migrate_people clock rest (sql_link_logs (p_id existing0) person d)"
      by (simp add: Cons)
    let ?d2 = "sql_link_logs (p_id existing0) person d"
    have "existing0 \<in> set (filter (\<lambda>p. p_name p = person) (db_profiles d))"
      by (simp add: Cons)
    then have "existing0 \<in> set (db_profiles d)" "p_name existing0 = person" by simp_all
    then have "list_all2 (linked_to (db_profiles d)) (db_logs d) (db_logs ?d2)"
      by (rule sql_link_logs_linked)
    then have link2: "list_all2 (linked_to (db_profiles ?d2)) (db_logs d) (db_logs ?d2)"
      by (simp add: sql_link_logs_def)
    have profiles2: "db_profiles ?d2 = db_profiles d"
      by (simp add: sql_link_logs_def)
    obtain d' new where run: "migrate_people clock rest ?d2 = (Inr (), d')"
      and profiles': "db_profiles d' = db_profiles ?d2 @ new"
      and new: "\<forall>p \<in> set new. p_relationship p = ''Unknown'' \<and> p_name p \<in> set rest"
      and dist: "distinct (map p_name (db_profiles ?d2)) \<longrightarrow> distinct (map p_name (db_profiles d'))"
      and link': "list_all2 (linked_to (db_profiles d')) (db_logs ?d2) (db_logs d')"
      using IH by blast
    have sub: "set (db_profiles ?d2) \<subseteq> set (db_profiles d')"
      by (simp add: profiles')
    have "list_all2 (linked_to (db_profiles d')) (db_logs d) (db_logs d')"
      using link2 link' by (rule list_all2_trans [rotated]) (rule linked_to_trans [OF _ _ sub])
    moreover have "db_profiles d' = db_profiles d @ new"
      by (simp add: profiles' profiles2)
    moreover have "\<forall>p \<in> set new. p_relationship p = ''Unknown'' \<and> p_name p \<in> set (person # rest)"
      using new by simp
    moreover have "distinct (map p_name (db_profiles d)) \<longrightarrow> distinct (map p_name (db_profiles d'))"
      using dist by (simp add: profiles2)
    ultimately show ?thesis using run step by metis
  qed
qed

text \<open>
  What the migration writes: it succeeds; it keeps the profiles and appends one, of
  relationship "Unknown", for names of unlinked log rows only; it keeps the profile
  names distinct; and it keeps every log row, giving each row that had no profile
  reference the id of a profile bearing the row's name and leaving every other row as
  it was.
\<close>

theorem migrateExistingData_links:
  "\<exists>d' new. migrateExistingData clock d = (Inr (), d')
     \<and> db_profiles d' = db_profiles d @ new
     \<and> (\<forall>p \<in> set new. p_relationship p = ''Unknown'' \<and> p_name p \<in> unlinked_people d)
     \<and> (distinct (map p_name (db_profiles d)) \<longrightarrow> distinct (map p_name (db_profiles d')))
     \<and> list_all2
          (\<lambda>l l'. if l_profile_id l = None
             then \<exists>p \<in> set (db_profiles d'). p_name p = l_person l
                    \<and> l' = l\<lparr>l_profile_id := Some (p_id p)\<rparr>
             else l' = l)
          (db_logs d) (db_logs d')"
proof (cases "filter (\<lambda>l. l_profile_id l = None) (db_logs d) = []")
  case True
  then have "\<forall>l \<in> set (db_logs d). l_profile_id l \<noteq> None"
    by (simp add: filter_empty_conv)
  then have "list_all2
          (\<lambda>l l'. if l_profile_id l = None
             then \<exists>p \<in> set (db_profiles d). p_name p = l_person l
                    \<and> l' = l\<lparr>l_profile_id := Some (p_id p)\<rparr>
             else l' = l)
          (db_logs d) (db_logs d)"
    by (auto simp: list_all2_same)
  then show ?thesis
    using migrate_noop [OF True, of clock] by (intro exI [of _ d] exI [of _ "[]"]) simp
next
  case False
  let ?people = "sql_distinct (map l_person (filter (\<lambda>l. l_profile_id l = None) (db_logs d)))"
  have people: "set ?people = unlinked_people d"
    by (auto simp: unlinked_people_def sql_distinct_def)
  have run: "migrateExistingData clock d = migrate_people clock ?people d"
    using False by (simp add: migrateExistingData_def sql_distinct_def)
  obtain d' new where d': "migrate_people clock ?people d = (Inr (), d')"
    and profiles: "db_profiles d' = db_profiles d @ new"
    and new: "\<forall>p \<in> set new. p_relationship p = ''Unknown'' \<and> p_name p \<in> set ?people"
    and dist: "distinct (map p_name (db_profiles d)) \<longrightarrow> distinct (map p_name (db_profiles d'))"
    and link: "list_all2 (linked_to (db_profiles d')) (db_logs d) (db_logs d')"
    using migrate_people_links by blast
  obtain d'' where "migrate_people clock ?people d = (Inr (), d'')"
    and "unlinked_people d'' = unlinked_people d - set ?people"
    using migrate_people_result by blast
  with d' people have "unlinked_people d' = {}" by simp
  then have none: "\<forall>l' \<in> set (db_logs d'). l_profile_id l' \<noteq> None"
    by (simp add: unlinked_people_empty filter_empty_conv)
  have "list_all2
          (\<lambda>l l'. if l_profile_id l = None
             then \<exists>p \<in> set (db_profiles d'). p_name p = l_person l
                    \<and> l' = l\<lparr>l_profile_id := Some (p_id p)\<rparr>
             else l' = l)
          (db_logs d) (db_logs d')"
    using link
  proof (rule list.rel_mono_strong)
    fix l l'
    assume "l \<in> set (db_logs d)" and in': "l' \<in> set (db_logs d')"
      and rel: "linked_to (db_profiles d') l l'"
    show "if l_profile_id l = None
      then \<exists>p \<in> set (db_profiles d'). p_name p = l_person l
             \<and> l' = l\<lparr>l_profile_id := Some (p_id p)\<rparr>
      else l' = l"
    proof (cases "l_profile_id l = None")
      case True
      with none in' have "l' \<noteq> l" by auto
      with rel True show ?thesis by (auto simp: linked_to_def)
    next
      case False
      with rel show ?thesis by (auto simp: linked_to_def)
    qed
  qed
  with run d' profiles new dist people show ?thesis by auto
qed

theorem migrateExistingData_links_witness:
  "(\<exists>new. db_profiles migrated_legacy_database = db_profiles legacy_database @ new
       \<and> map p_name new = [''Alex''] \<and> map p_relationship new = [''Unknown''])
   \<and> map (\<lambda>l. (l_person l, l_profile_id l)) (db_logs legacy_database) =
       [(''Alex'', None), (''Sam'', None), (''Alex'', None), (''Sam'', Some 1)]
   \<and> map (\<lambda>l. (l_person l, l_profile_id l)) (db_logs migrated_legacy_database) =
       [(''Alex'', Some 2), (''Sam'', Some 1), (''Alex'', Some 2), (''Sam'', Some 1)]
   \<and> map (\<lambda>p. (p_id p, p_name p)) (db_profiles migrated_legacy_database) =
       [(1, ''Sam''), (2, ''Alex'')]"
proof -
  obtain d' new where d': "migrateExistingData (\<lambda>person. ''2024-03-01T00:00:00.000Z'') legacy_database = (Inr (), d')"
    and profiles: "db_profiles d' = db_profiles legacy_database @ new"
    and new: "\<forall>p \<in> set new. p_relationship p = ''Unknown'' \<and> p_name p \<in> unlinked_people legacy_database"
    using migrateExistingData_links [of "\<lambda>person. ''2024-03-01T00:00:00.000Z''" legacy_database]
    by blast
  from d' have eq: "d' = migrated_legacy_database"
    by (simp only: migrate_legacy prod.inject)
  from profiles [unfolded eq] have "new = [\<lparr>p_id = 2, p_name = ''Alex'', p_relationship = ''Unknown'',
          p_created_at = ''2024-03-01T00:00:00.000Z''\<rparr>]"
    by (simp add: migrated_legacy_database_def legacy_database_def)
  with profiles [unfolded eq]
  have "\<exists>new. db_profiles migrated_legacy_database = db_profiles legacy_database @ new
       \<and> map p_name new = [''Alex''] \<and> map p_relationship new = [''Unknown'']"
    by (intro exI [of _ new]) simp
  then show ?thesis
    by (simp add: migrated_legacy_database_def legacy_database_def example_log_def
        example_profile_def)
qed

subsection \<open>createProfile and insertLog\<close>

lemma createProfile_alex_first:
  "createProfile alex ''2024-01-01T10:00:00.000Z'' empty_database = (Inr 1, alex_database)"
  by (simp add: createProfile_def sql_insert_profile_def next_rowid_def alex_def
      empty_database_def alex_database_def)

text \<open>
  C6. If a profile of the given name exists, createProfile fails with the unique
  constraint's error and leaves the stored state as it was; otherwise it returns a row id
  that no profile row has, larger than every id allocated before, and appends the row
  with the given name, relationship and the current timestamp.
\<close>

theorem createProfile_unique_name:
  "((\<exists>p \<in> set (db_profiles d). p_name p = np_name profile) \<longrightarrow>
      createProfile profile timestamp d = (Inl UniqueConstraintViolation, d))
   \<and> (\<not> (\<exists>p \<in> set (db_profiles d). p_name p = np_name profile) \<longrightarrow>
      (\<exists>rowid. createProfile profile timestamp d =
          (Inr rowid,
           d\<lparr>db_profiles := db_profiles d @
                [\<lparr>p_id = rowid, p_name = np_name profile,
                  p_relationship = np_relationship profile, p_created_at = timestamp\<rparr>],
             db_profiles_seq := rowid\<rparr>)
        \<and> rowid \<notin> set (map p_id (db_profiles d))
        \<and> db_profiles_seq d < rowid))"
proof (intro conjI impI)
  assume "\<exists>p \<in> set (db_profiles d). p_name p = np_name profile"
  then have "list_ex (\<lambda>p. p_name p = np_name profile) (db_profiles d)"
    by (simp add: list_ex_iff)
  then show "createProfile profile timestamp d = (Inl UniqueConstraintViolation, d)"
    by (simp add: createProfile_def sql_insert_profile_def)
next
  assume "\<not> (\<exists>p \<in> set (db_profiles d). p_name p = np_name profile)"
  then have fresh: "\<not> list_ex (\<lambda>p. p_name p = np_name profile) (db_profiles d)"
    by (simp add: list_ex_iff)
  let ?rowid = "next_rowid (db_profiles_seq d) (map p_id (db_profiles d))"
  have "createProfile profile timestamp d =
          (Inr ?rowid,
           d\<lparr>db_profiles := db_profiles d @
                [\<lparr>p_id = ?rowid, p_name = np_name profile,
                  p_relationship = np_relationship profile, p_created_at = timestamp\<rparr>],
             db_profiles_seq := ?rowid\<rparr>)"
    unfolding createProfile_def by (rule sql_insert_profile_new [OF fresh])
  moreover have "?rowid \<notin> set (map p_id (db_profiles d))" by (rule next_rowid_fresh)
  moreover have "db_profiles_seq d < ?rowid" by (rule next_rowid_gt_seq)
  ultimately show "\<exists>rowid. createProfile profile timestamp d =
          (Inr rowid,
           d\<lparr>db_profiles := db_profiles d @
                [\<lparr>p_id = rowid, p_name = np_name profile,
                  p_relationship = np_relationship profile, p_created_at = timestamp\<rparr>],
             db_profiles_seq := rowid\<rparr>)
        \<and> rowid \<notin> set (map p_id (db_profiles d))
        \<and> db_profiles_seq d < rowid"
    by blast
qed

theorem createProfile_unique_name_witness:
  "createProfile alex ''2024-01-01T10:00:00.000Z'' empty_database = (Inr 1, alex_database)
   \<and> createProfile alex ''2024-01-02T10:00:00.000Z'' alex_database =
       (Inl UniqueConstraintViolation, alex_database)"
proof -
  have "\<exists>p \<in> set (db_profiles alex_database). p_name p = np_name alex"
    by (simp add: alex_def alex_database_def)
  with createProfile_unique_name [of alex_database alex "''2024-01-02T10:00:00.000Z''"]
  have "createProfile alex ''2024-01-02T10:00:00.000Z'' alex_database =
      (Inl UniqueConstraintViolation, alex_database)"
    by blast
  with createProfile_alex_first show ?thesis by simp
qed

text \<open>
  C7. insertLog fails, and leaves the stored state as it was, for every entry whose flag
  type is not GREEN, YELLOW or RED or whose severity is outside [1,10]; for every other
  entry it appends the row under a fresh id, stamped with the current timestamp, with
  the profile reference \<^verbatim>\<open>entry.profile_id || null\<close>, which is the provided
  reference unless that is 0.
\<close>

theorem insertLog_validates:
  "((\<not> (n_type entry = ''GREEN'' \<or> n_type entry = ''YELLOW'' \<or> n_type entry = ''RED'')
      \<or> n_severity entry < 1 \<or> n_severity entry > 10) \<longrightarrow>
      insertLog entry timestamp d = (Inl CheckConstraintViolation, d))
   \<and> ((n_type entry = ''GREEN'' \<or> n_type entry = ''YELLOW'' \<or> n_type entry = ''RED'')
      \<and> 1 \<le> n_severity entry \<and> n_severity entry \<le> 10 \<longrightarrow>
      (\<exists>rowid. insertLog entry timestamp d =
          (Inr rowid,
           d\<lparr>db_logs := db_logs d @
                [\<lparr>l_id = rowid, l_timestamp = timestamp, l_person = n_person entry,
                  l_profile_id = number_or_null (n_profile_id entry), l_type = n_type entry,
                  l_severity = n_severity entry, l_category = n_category entry,
                  l_notes = string_or_null (n_notes entry)\<rparr>],
             db_logs_seq := rowid\<rparr>)
        \<and> rowid \<notin> set (map l_id (db_logs d))))
   \<and> (n_profile_id entry \<noteq> Some 0 \<longrightarrow> number_or_null (n_profile_id entry) = n_profile_id entry)"
proof (intro conjI impI)
  assume "\<not> (n_type entry = ''GREEN'' \<or> n_type entry = ''YELLOW'' \<or> n_type entry = ''RED'')
      \<or> n_severity entry < 1 \<or> n_severity entry > 10"
  then show "insertLog entry timestamp d = (Inl CheckConstraintViolation, d)"
    unfolding insertLog_def sql_insert_log_def by (simp split: if_splits) linarith
next
  assume valid: "(n_type entry = ''GREEN'' \<or> n_type entry = ''YELLOW'' \<or> n_type entry = ''RED'')
      \<and> 1 \<le> n_severity entry \<and> n_severity entry \<le> 10"
  let ?rowid = "next_rowid (db_logs_seq d) (map l_id (db_logs d))"
  have "insertLog entry timestamp d =
          (Inr ?rowid,
           d\<lparr>db_logs := db_logs d @
                [\<lparr>l_id = ?rowid, l_timestamp = timestamp, l_person = n_person entry,
                  l_profile_id = number_or_null (n_profile_id entry), l_type = n_type entry,
                  l_severity = n_severity entry, l_category = n_category entry,
                  l_notes = string_or_null (n_notes entry)\<rparr>],
             db_logs_seq := ?rowid\<rparr>)"
    using valid unfolding insertLog_def sql_insert_log_def foreign_keys_def
    by (simp add: Let_def)
  moreover have "?rowid \<notin> set (map l_id (db_logs d))" by (rule next_rowid_fresh)
  ultimately show "\<exists>rowid. insertLog entry timestamp d =
          (Inr rowid,
           d\<lparr>db_logs := db_logs d @
                [\<lparr>l_id = rowid, l_timestamp = timestamp, l_person = n_person entry,
                  l_profile_id = number_or_null (n_profile_id entry), l_type = n_type entry,
                  l_severity = n_severity entry, l_category = n_category entry,
                  l_notes = string_or_null (n_notes entry)\<rparr>],
             db_logs_seq := rowid\<rparr>)
        \<and> rowid \<notin> set (map l_id (db_logs d))"
    by blast
next
  assume "n_profile_id entry \<noteq> Some 0"
  then show "number_or_null (n_profile_id entry) = n_profile_id entry"
    by (simp add: number_or_null_def split: option.splits)
qed

theorem insertLog_validates_witness:
  "insertLog ((red_flag (Some 1))\<lparr>n_severity := 11\<rparr>) ''2024-01-03T10:00:00.000Z'' alex_database =
      (Inl CheckConstraintViolation, alex_database)
   \<and> insertLog ((red_flag (Some 1))\<lparr>n_severity := 0\<rparr>) ''2024-01-03T10:00:00.000Z'' alex_database =
      (Inl CheckConstraintViolation, alex_database)
   \<and> insertLog ((red_flag (Some 1))\<lparr>n_type := ''PURPLE''\<rparr>) ''2024-01-03T10:00:00.000Z'' alex_database =
      (Inl CheckConstraintViolation, alex_database)
   \<and> (\<exists>rowid. insertLog (red_flag (Some 1)) ''2024-01-03T10:00:00.000Z'' alex_database =
        (Inr rowid, alex_database\<lparr>db_logs :=
          [\<lparr>l_id = rowid, l_timestamp = ''2024-01-03T10:00:00.000Z'', l_person = ''Alex'',
            l_profile_id = Some 1, l_type = ''RED'', l_severity = 5, l_category = ''Trust'',
            l_notes = None\<rparr>], db_logs_seq := rowid\<rparr>))"
proof -
  have a: "insertLog ((red_flag (Some 1))\<lparr>n_severity := 11\<rparr>) ''2024-01-03T10:00:00.000Z'' alex_database =
      (Inl CheckConstraintViolation, alex_database)"
    using insertLog_validates [of "(red_flag (Some 1))\<lparr>n_severity := 11\<rparr>" "''2024-01-03T10:00:00.000Z''" alex_database]
    by (simp add: red_flag_def)
  have b: "insertLog ((red_flag (Some 1))\<lparr>n_severity := 0\<rparr>) ''2024-01-03T10:00:00.000Z'' alex_database =
      (Inl CheckConstraintViolation, alex_database)"
    using insertLog_validates [of "(red_flag (Some 1))\<lparr>n_severity := 0\<rparr>" "''2024-01-03T10:00:00.000Z''" alex_database]
    by (simp add: red_flag_def)
  have c: "insertLog ((red_flag (Some 1))\<lparr>n_type := ''PURPLE''\<rparr>) ''2024-01-03T10:00:00.000Z'' alex_database =
      (Inl CheckConstraintViolation, alex_database)"
    using insertLog_validates [of "(red_flag (Some 1))\<lparr>n_type := ''PURPLE''\<rparr>" "''2024-01-03T10:00:00.000Z''" alex_database]
    by (simp add: red_flag_def)
  have d: "\<exists>rowid. insertLog (red_flag (Some 1)) ''2024-01-03T10:00:00.000Z'' alex_database =
        (Inr rowid, alex_database\<lparr>db_logs :=
          [\<lparr>l_id = rowid, l_timestamp = ''2024-01-03T10:00:00.000Z'', l_person = ''Alex'',
            l_profile_id = Some 1, l_type = ''RED'', l_severity = 5, l_category = ''Trust'',
            l_notes = None\<rparr>], db_logs_seq := rowid\<rparr>)"
    using insertLog_validates [of "red_flag (Some 1)" "''2024-01-03T10:00:00.000Z''" alex_database]
    by (simp add: red_flag_def number_or_null_def string_or_null_def alex_database_def)
  from a b c d show ?thesis by blast
qed

subsection \<open>deleteProfile\<close>

lemma insertLog_red_flag:
  "insertLog (red_flag (Some 1)) ''2024-01-03T10:00:00.000Z'' alex_database =
     (Inr 1, alex_flagged_database)"
  by (simp add: insertLog_def sql_insert_log_def foreign_keys_def number_or_null_def
      string_or_null_def red_flag_def alex_database_def alex_flagged_database_def next_rowid_def)

lemma deleteProfile_keeps_logs: "db_logs (deleteProfile i d) = db_logs d"
  by (simp add: deleteProfile_def sql_delete_profile_def foreign_keys_def)

lemma deleteProfile_removes_profile:
  "db_profiles (deleteProfile i d) = filter (\<lambda>p. p_id p \<noteq> i) (db_profiles d)"
  by (simp add: deleteProfile_def sql_delete_profile_def)

text \<open>
  C5. deleteProfile is to remove the profile row and clear the profile reference of
  every log row that pointed at it. On the connection the source opens, the profile
  created first, with one log filed against it, is removed by deleteProfile while the
  log row keeps the reference 1, which no profile row has any more.
\<close>

theorem deleteProfile_leaves_dangling_reference:
  "(let d1 = snd (createProfile alex ''2024-01-01T10:00:00.000Z'' empty_database);
        d2 = snd (insertLog (red_flag (Some 1)) ''2024-01-03T10:00:00.000Z'' d1);
        d3 = deleteProfile 1 d2
    in map p_id (db_profiles d2) = [1]
       \<and> map l_profile_id (db_logs d2) = [Some 1]
       \<and> db_profiles d3 = []
       \<and> map l_profile_id (db_logs d3) = [Some 1])"
  unfolding Let_def createProfile_alex_first insertLog_red_flag snd_conv
  by (simp add: deleteProfile_keeps_logs deleteProfile_removes_profile alex_database_def
      alex_flagged_database_def)

text \<open>
  With enforcement of foreign keys switched on, the same DELETE statement detaches the
  log rows: none is removed, none keeps the reference, and nothing else of a row changes.
\<close>

lemma sql_delete_profile_enforced:
  assumes "p \<in> set (db_profiles d)" and "p_id p = i"
  shows "db_profiles (sql_delete_profile True i d) = filter (\<lambda>p. p_id p \<noteq> i) (db_profiles d)"
    and "length (db_logs (sql_delete_profile True i d)) = length (db_logs d)"
    and "\<forall>l \<in> set (db_logs (sql_delete_profile True i d)). l_profile_id l \<noteq> Some i"
    and "map (\<lambda>l. l\<lparr>l_profile_id := None\<rparr>) (db_logs (sql_delete_profile True i d)) =
         map (\<lambda>l. l\<lparr>l_profile_id := None\<rparr>) (db_logs d)"
proof -
  have ex: "list_ex (\<lambda>p. p_id p = i) (db_profiles d)"
    using assms by (auto simp: list_ex_iff)
  show "db_profiles (sql_delete_profile True i d) = filter (\<lambda>p. p_id p \<noteq> i) (db_profiles d)"
    by (simp add: sql_delete_profile_def)
  show "length (db_logs (sql_delete_profile True i d)) = length (db_logs d)"
    by (simp add: sql_delete_profile_def)
  show "\<forall>l \<in> set (db_logs (sql_delete_profile True i d)). l_profile_id l \<noteq> Some i"
    using ex by (auto simp: sql_delete_profile_def)
  show "map (\<lambda>l. l\<lparr>l_profile_id := None\<rparr>) (db_logs (sql_delete_profile True i d)) =
         map (\<lambda>l. l\<lparr>l_profile_id := None\<rparr>) (db_logs d)"
    using ex by (simp add: sql_delete_profile_def)
qed

subsection \<open>getLogsByProfileId and fetchProfileData\<close>

lemma insertLog_unlinked:
  "insertLog (red_flag None) ''2024-01-03T10:00:00.000Z'' alex_database =
     (Inr 1, alex_unlinked_database)"
  by (simp add: insertLog_def sql_insert_log_def foreign_keys_def number_or_null_def
      string_or_null_def red_flag_def alex_database_def alex_unlinked_database_def next_rowid_def)

lemma sort_key_Nil_iff: "sort_key f xs = [] \<longleftrightarrow> xs = []"
  by (metis length_sort length_0_conv)

lemma sql_distinct_first_occurrence:
  "sql_distinct [''Sam'', ''Alex'', ''Sam'', ''Kim'', ''Alex''] = [''Sam'', ''Alex'', ''Kim'']"
  by (simp add: sql_distinct_def)

lemma order_by_timestamp_desc_ties:
  "map l_id (order_by_timestamp_desc
     [example_log 1 None ''Alex'', example_log 2 None ''Alex'', example_log 3 None ''Alex'']) =
   [1, 2, 3]"
  by (simp add: order_by_timestamp_desc_def example_log_def)

lemma order_by_timestamp_desc_rows:
  "set (order_by_timestamp_desc rows) = set rows
   \<and> length (order_by_timestamp_desc rows) = length rows
   \<and> sorted_wrt (\<lambda>a b. l_timestamp a \<ge> l_timestamp b) (order_by_timestamp_desc rows)"
proof -
  have "sorted (map l_timestamp (sort_key l_timestamp (rev rows)))"
    by (rule sorted_sort_key)
  then have "sorted_wrt (\<lambda>a b. l_timestamp a \<le> l_timestamp b) (sort_key l_timestamp (rev rows))"
    by (simp add: sorted_map)
  then have "sorted_wrt (\<lambda>a b. l_timestamp a \<ge> l_timestamp b)
      (rev (sort_key l_timestamp (rev rows)))"
    by (simp add: sorted_wrt_rev)
  then show ?thesis by (simp add: order_by_timestamp_desc_def)
qed

text \<open>
  C4. getLogsByProfileId is to look the logs up by profile reference and, when that
  yields no row, by the profile's name. For a profile whose only log was filed without a
  profile reference it returns no row, where the lookup of fetchProfileData in
  ProfileDetailScreen falls back to the name and returns the log.
\<close>

theorem getLogsByProfileId_no_fallback:
  "(let d1 = snd (createProfile alex ''2024-01-01T10:00:00.000Z'' empty_database);
        d2 = snd (insertLog (red_flag None) ''2024-01-03T10:00:00.000Z'' d1)
    in map l_person (db_logs d2) = [''Alex'']
       \<and> getLogsByProfileId 1 d2 = []
       \<and> snd (fetchProfileData 1 d2) = db_logs d2)"
  unfolding Let_def createProfile_alex_first insertLog_unlinked snd_conv
  by (simp add: getLogsByProfileId_def fetchProfileData_def order_by_timestamp_desc_def
      alex_database_def alex_unlinked_database_def)

text \<open>
  What getLogsByProfileId returns: the log rows whose profile reference is the given
  id, all of them and no other, newest first. The person name plays no part.
\<close>

theorem getLogsByProfileId_rows:
  "set (getLogsByProfileId profileId d) = {l \<in> set (db_logs d). l_profile_id l = Some profileId}
   \<and> length (getLogsByProfileId profileId d) =
       length (filter (\<lambda>l. l_profile_id l = Some profileId) (db_logs d))
   \<and> sorted_wrt (\<lambda>a b. l_timestamp a \<ge> l_timestamp b) (getLogsByProfileId profileId d)"
  using order_by_timestamp_desc_rows [of "filter (\<lambda>l. l_profile_id l = Some profileId) (db_logs d)"]
  by (simp add: getLogsByProfileId_def)

text \<open>
  What fetchProfileData looks up: nothing for an id no profile has; for the profile of
  the id, the log rows that reference it, newest first, and, exactly when there is none,
  the log rows that carry the profile's name, newest first.
\<close>

theorem fetchProfileData_dual_path:
  "(\<not> (\<exists>p \<in> set (db_profiles d). p_id p = profileId) \<longrightarrow>
      fetchProfileData profileId d = (None, []))
   \<and> ((\<exists>p \<in> set (db_profiles d). p_id p = profileId) \<longrightarrow>
      (\<exists>p \<in> set (db_profiles d). p_id p = profileId
         \<and> fst (fetchProfileData profileId d) = Some p
         \<and> snd (fetchProfileData profileId d) =
             (if \<exists>l \<in> set (db_logs d). l_profile_id l = Some profileId
              then order_by_timestamp_desc
                     (filter (\<lambda>l. l_profile_id l = Some profileId) (db_logs d))
              else order_by_timestamp_desc
                     (filter (\<lambda>l. l_person l = p_name p) (db_logs d)))))"
proof (intro conjI impI)
  assume "\<not> (\<exists>p \<in> set (db_profiles d). p_id p = profileId)"
  then have "filter (\<lambda>p. p_id p = profileId) (db_profiles d) = []"
    by (simp add: filter_empty_conv)
  then show "fetchProfileData profileId d = (None, [])"
    by (simp add: fetchProfileData_def)
next
  assume "\<exists>p \<in> set (db_profiles d). p_id p = profileId"
  then have "filter (\<lambda>p. p_id p = profileId) (db_profiles d) \<noteq> []"
    by (simp add: filter_empty_conv)
  then obtain p ps where found: "filter (\<lambda>p. p_id p = profileId) (db_profiles d) = p # ps"
    by (cases "filter (\<lambda>p. p_id p = profileId) (db_profiles d)") auto
  then have "p \<in> set (filter (\<lambda>p. p_id p = profileId) (db_profiles d))" by simp
  then have p: "p \<in> set (db_profiles d)" "p_id p = profileId" by simp_all
  have "order_by_timestamp_desc
        (filter (\<lambda>l. l_profile_id l = Some profileId) (db_logs d)) = [] \<longleftrightarrow>
      filter (\<lambda>l. l_profile_id l = Some profileId) (db_logs d) = []"
    by (simp add: order_by_timestamp_desc_def sort_key_Nil_iff)
  then have empty: "order_by_timestamp_desc
        (filter (\<lambda>l. l_profile_id l = Some profileId) (db_logs d)) = [] \<longleftrightarrow>
      \<not> (\<exists>l \<in> set (db_logs d). l_profile_id l = Some profileId)"
    by (simp add: filter_empty_conv)
  have "fst (fetchProfileData profileId d) = Some p
         \<and> snd (fetchProfileData profileId d) =
             (if \<exists>l \<in> set (db_logs d). l_profile_id l = Some profileId
              then order_by_timestamp_desc
                     (filter (\<lambda>l. l_profile_id l = Some profileId) (db_logs d))
              else order_by_timestamp_desc
                     (filter (\<lambda>l. l_person l = p_name p) (db_logs d)))"
    using empty by (simp add: fetchProfileData_def found Let_def)
  with p show "\<exists>p \<in> set (db_profiles d). p_id p = profileId
         \<and> fst (fetchProfileData profileId d) = Some p
         \<and> snd (fetchProfileData profileId d) =
             (if \<exists>l \<in> set (db_logs d). l_profile_id l = Some profileId
              then order_by_timestamp_desc
                     (filter (\<lambda>l. l_profile_id l = Some profileId) (db_logs d))
              else order_by_timestamp_desc
                     (filter (\<lambda>l. l_person l = p_name p) (db_logs d)))"
    by blast
qed

theorem fetchProfileData_dual_path_witness:
  "fetchProfileData 7 alex_unlinked_database = (None, [])
   \<and> snd (fetchProfileData 1 alex_unlinked_database) = db_logs alex_unlinked_database
   \<and> snd (fetchProfileData 1 alex_flagged_database) = db_logs alex_flagged_database
   \<and> length (db_logs alex_unlinked_database) = 1"
proof -
  have a: "fetchProfileData 7 alex_unlinked_database = (None, [])"
    using fetchProfileData_dual_path [of alex_unlinked_database 7]
    by (simp add: alex_unlinked_database_def alex_database_def)
  have b: "snd (fetchProfileData 1 alex_unlinked_database) = db_logs alex_unlinked_database"
    using fetchProfileData_dual_path [of alex_unlinked_database 1]
    by (simp add: alex_unlinked_database_def alex_database_def order_by_timestamp_desc_def)
  have c: "snd (fetchProfileData 1 alex_flagged_database) = db_logs alex_flagged_database"
    using fetchProfileData_dual_path [of alex_flagged_database 1]
    by (simp add: alex_flagged_database_def alex_database_def order_by_timestamp_desc_def)
  from a b c show ?thesis
    by (simp add: alex_unlinked_database_def)
qed

subsection \<open>getTopProfilesByLogCount\<close>

















end
